theory Spec2Isabelle
  imports Main "HOL-Library.Word" "HOL-Library.Sublist"
begin

section \<open>The environment of the server\<close>

text \<open>
  \<^verbatim>\<open>volatility_mcp_server.py\<close> is a layer over the operating system: it tests paths,
  creates a directory, walks a tree and runs one child process. The operating system and
  the Python library are taken as a parameter: a record \<open>'w os\<close> of the library functions
  the source calls, over a type \<open>'w\<close> of states of the outside world (file system and
  processes). Every theorem holds for each such record.

  Python \<^verbatim>\<open>str\<close> values are \<^typ>\<open>string\<close>: lists of 8-bit characters, read as the code
  points U+0000 to U+00FF. Python \<^verbatim>\<open>bytes\<close> are lists of \<^typ>\<open>8 word\<close>.

  A library call that can raise returns a sum, \<open>Inl\<close> carrying the exception. Exceptions
  are the instances of Python's class \<^verbatim>\<open>Exception\<close>, the class both handlers of the source
  name; \<open>str_exc\<close> is \<^verbatim>\<open>str(e)\<close>.
\<close>

type_synonym bytes = "8 word list"

datatype py_exception = PyException (str_exc: string)

text \<open>
  What \<^verbatim>\<open>asyncio.create_subprocess_exec\<close> followed by \<^verbatim>\<open>process.communicate()\<close> comes to:
  one of the two calls raised, or the child ended with a return code and the two
  captured streams.
\<close>

datatype proc_outcome =
    Raised py_exception
  | Exited (returncode: int) (stdout: bytes) (stderr: bytes)

record 'w os =
  sys_executable :: string
  normpath :: "string \<Rightarrow> string"
  path_join :: "string \<Rightarrow> string \<Rightarrow> string"
  isfile :: "'w \<Rightarrow> string \<Rightarrow> bool"
  isdir :: "'w \<Rightarrow> string \<Rightarrow> bool"
  path_exists :: "'w \<Rightarrow> string \<Rightarrow> bool"
  makedirs :: "'w \<Rightarrow> string \<Rightarrow> py_exception option \<times> 'w"
  listdir :: "'w \<Rightarrow> string \<Rightarrow> py_exception + string list"
  getcwd :: "'w \<Rightarrow> py_exception + string"
  walk :: "'w \<Rightarrow> string \<Rightarrow> (string \<times> string list \<times> string list) list"
  getsize :: "'w \<Rightarrow> string \<Rightarrow> py_exception + 64 word"
  subprocess_exec :: "'w \<Rightarrow> string list \<Rightarrow> string \<Rightarrow> proc_outcome \<times> 'w"
  decode_utf8_replace :: "bytes \<Rightarrow> string"

text \<open>
  The state an operation runs in: the outside world, and the log of the argument vectors
  handed to \<^verbatim>\<open>create_subprocess_exec\<close> so far (what a spy on the spawn call records).
\<close>

record 'w state =
  world :: 'w
  exec_calls :: "string list list"

section \<open>Python's string functions\<close>

text \<open>
  \<^verbatim>\<open>str.isspace\<close> on the code points below 256: the characters \<^verbatim>\<open>strip()\<close> removes and
  \<^verbatim>\<open>split()\<close> splits at.
\<close>

definition py_isspace :: "char \<Rightarrow> bool" where
  "py_isspace c =
     (let n = (of_char c :: nat)
      in (9 \<le> n \<and> n \<le> 13) \<or> (28 \<le> n \<and> n \<le> 32) \<or> n = 133 \<or> n = 160)"

definition py_strip :: "string \<Rightarrow> string" where
  "py_strip l = rev (dropWhile py_isspace (rev (dropWhile py_isspace l)))"

text \<open>\<^verbatim>\<open>s.split()\<close>: the maximal runs of characters that are not whitespace.\<close>

fun split_ws :: "string \<Rightarrow> string \<Rightarrow> string list" where
  "split_ws cur [] = (if cur = [] then [] else [cur])"
| "split_ws cur (c # cs) =
     (if py_isspace c then (if cur = [] then split_ws [] cs else cur # split_ws [] cs)
      else split_ws (cur @ [c]) cs)"

definition py_split :: "string \<Rightarrow> string list" where
  "py_split l = split_ws [] l"

text \<open>\<^verbatim>\<open>s.split(sep)\<close> for a separator of one character: never an empty list.\<close>

fun split_on :: "char \<Rightarrow> string \<Rightarrow> string list" where
  "split_on sep [] = [[]]"
| "split_on sep (c # cs) =
     (if c = sep then [] # split_on sep cs
      else (case split_on sep cs of
              [] \<Rightarrow> [[c]]
            | l # ls \<Rightarrow> (c # l) # ls))"

text \<open>\<^verbatim>\<open>sep.join(xs)\<close>.\<close>

fun py_join :: "string \<Rightarrow> string list \<Rightarrow> string" where
  "py_join sep [] = []"
| "py_join sep [x] = x"
| "py_join sep (x # y # ys) = x @ sep @ py_join sep (y # ys)"

text \<open>
  \<^verbatim>\<open>str.lower\<close> on the code points below 256: A to Z, and the capital letters of
  U+00C0 to U+00DE other than the multiplication sign U+00D7, move up by 32.
\<close>

definition lower_char :: "char \<Rightarrow> char" where
  "lower_char c =
     (let n = (of_char c :: nat)
      in if (65 \<le> n \<and> n \<le> 90) \<or> (192 \<le> n \<and> n \<le> 222 \<and> n \<noteq> 215)
         then char_of (n + 32) else c)"

definition py_lower :: "string \<Rightarrow> string" where
  "py_lower l = map lower_char l"

definition endswith :: "string \<Rightarrow> string \<Rightarrow> bool" where
  "endswith l ext = (length ext \<le> length l \<and> drop (length l - length ext) l = ext)"

text \<open>\<^verbatim>\<open>str(n)\<close> for an integer: decimal digits, a minus sign when negative.\<close>

definition digit_char :: "nat \<Rightarrow> char" where
  "digit_char d = char_of (48 + d)"

fun str_nat :: "nat \<Rightarrow> string" where
  "str_nat n = (if n < 10 then [digit_char n] else str_nat (n div 10) @ [digit_char (n mod 10)])"

declare str_nat.simps [simp del]

definition str_int :: "int \<Rightarrow> string" where
  "str_int i = (if i < 0 then CHR ''-'' # str_nat (nat (- i)) else str_nat (nat i))"

text \<open>The value of an \<^verbatim>\<open>Optional[str]\<close> that passes \<^verbatim>\<open>if x:\<close>: neither \<^verbatim>\<open>None\<close> nor empty.\<close>

definition truthy :: "string option \<Rightarrow> string option" where
  "truthy x = (case x of None \<Rightarrow> None | Some d \<Rightarrow> if d = [] then None else Some d)"

abbreviation NL :: char where
  "NL \<equiv> CHR 0x0A"

abbreviation DQ :: char where
  "DQ \<equiv> CHR 0x22"

abbreviation BSL :: char where
  "BSL \<equiv> CHR 0x5C"

subsection \<open>Floating point, as far as the size report needs it\<close>

text \<open>
  \<^verbatim>\<open>os.path.getsize(p) / (1024 * 1024)\<close> is the double nearest to the quotient (ties to
  even). Dividing by a power of two only changes the exponent, so that double is
  \<open>round53 n / 2 ^ 20\<close>, where \<open>round53\<close> rounds to 53 significant bits; a size below
  \<open>2 ^ 53\<close> is not rounded at all. \<open>size_mb\<close> returns the numerator. The format
  \<^verbatim>\<open>:.2f\<close> rounds the exact value of the double to hundredths, ties to even.
\<close>

definition round_half_even :: "nat \<Rightarrow> nat \<Rightarrow> nat" where
  "round_half_even n d =
     (let q = n div d; r = n mod d
      in if d < 2 * r \<or> (2 * r = d \<and> odd q) then q + 1 else q)"

fun excess_bits :: "nat \<Rightarrow> nat" where
  "excess_bits n = (if n < 2 ^ 53 then 0 else Suc (excess_bits (n div 2)))"

declare excess_bits.simps [simp del]

definition round53 :: "nat \<Rightarrow> nat" where
  "round53 n = (let sh = excess_bits n in round_half_even n (2 ^ sh) * 2 ^ sh)"

definition size_mb :: "64 word \<Rightarrow> nat" where
  "size_mb sz = round53 (unat sz)"

definition hundredths :: "nat \<Rightarrow> nat" where
  "hundredths m = round_half_even (m * 100) (2 ^ 20)"

definition format_2f :: "nat \<Rightarrow> string" where
  "format_2f m =
     (let h = hundredths m
      in str_nat (h div 100) @ ''.'' @ [digit_char (h mod 100 div 10), digit_char (h mod 10)])"

subsection \<open>\<^verbatim>\<open>json.dumps(xs, indent=2)\<close> on a list of strings\<close>

definition hex_digit :: "nat \<Rightarrow> char" where
  "hex_digit d = (if d < 10 then char_of (48 + d) else char_of (87 + d))"

text \<open>
  With \<^verbatim>\<open>ensure_ascii\<close>: the quote and the backslash are escaped, a character outside
  U+0020 to U+007E is written by its short escape or as \<^verbatim>\<open>\u00xx\<close>.
\<close>

definition json_escape_char :: "char \<Rightarrow> string" where
  "json_escape_char c =
     (let n = (of_char c :: nat)
      in if c = DQ then [BSL, DQ]
         else if c = BSL then [BSL, BSL]
         else if n = 10 then [BSL, CHR ''n'']
         else if n = 13 then [BSL, CHR ''r'']
         else if n = 9 then [BSL, CHR ''t'']
         else if n = 8 then [BSL, CHR ''b'']
         else if n = 12 then [BSL, CHR ''f'']
         else if 32 \<le> n \<and> n \<le> 126 then [c]
         else [BSL, CHR ''u'', CHR ''0'', CHR ''0'', hex_digit (n div 16), hex_digit (n mod 16)])"

definition json_string :: "string \<Rightarrow> string" where
  "json_string l = [DQ] @ concat (map json_escape_char l) @ [DQ]"

definition json_dumps_indent2 :: "string list \<Rightarrow> string" where
  "json_dumps_indent2 xs =
     (if xs = [] then ''[]''
      else ''['' @ [NL] @ py_join ('','' @ [NL]) (map (\<lambda>x. ''  '' @ json_string x) xs)
           @ [NL] @ '']'')"

section \<open>Configuration\<close>

definition VOLATILITY_PYTHON :: "'w os \<Rightarrow> string" where
  "VOLATILITY_PYTHON E = sys_executable E"

definition VOLATILITY_DIR :: "'w os \<Rightarrow> string" where
  "VOLATILITY_DIR E =
     normpath E (''C:'' @ [BSL] @ ''Users'' @ [BSL] @ ''visha'' @ [BSL] @
                 ''Desktop'' @ [BSL] @ ''volatility3'')"

definition VOLATILITY_SCRIPT :: "'w os \<Rightarrow> string" where
  "VOLATILITY_SCRIPT E = path_join E (VOLATILITY_DIR E) ''vol.py''"

section \<open>Running the external tool\<close>

text \<open>
  \<^verbatim>\<open>run_volatility(cmd_args, cwd=VOLATILITY_DIR)\<close>; every caller leaves \<^verbatim>\<open>cwd\<close> at its
  default. The \<^verbatim>\<open>try\<close> block holds the spawn, the wait and both returns; its handler
  turns an exception into a string.
\<close>

definition run_volatility :: "'w os \<Rightarrow> string list \<Rightarrow> 'w state \<Rightarrow> string \<times> 'w state" where
  "run_volatility E cmd_args s =
     (let cmd = [VOLATILITY_PYTHON E, VOLATILITY_SCRIPT E] @ cmd_args;
          (outcome, w') = subprocess_exec E (world s) cmd (VOLATILITY_DIR E);
          s' = \<lparr>world = w', exec_calls = exec_calls s @ [cmd]\<rparr>
      in case outcome of
           Raised e \<Rightarrow> (''Exception running Volatility: '' @ str_exc e, s')
         | Exited rc out err \<Rightarrow>
             if rc \<noteq> 0
             then (''Error running Volatility command: '' @ decode_utf8_replace E err, s')
             else (decode_utf8_replace E out, s'))"

definition list_available_plugins :: "'w os \<Rightarrow> 'w state \<Rightarrow> string \<times> 'w state" where
  "list_available_plugins E s = run_volatility E [''-h''] s"

section \<open>Operations on a memory image\<close>

definition get_image_info :: "'w os \<Rightarrow> string \<Rightarrow> 'w state \<Rightarrow> string \<times> 'w state" where
  "get_image_info E memory_dump_path s =
     (let memory_dump_path = normpath E memory_dump_path in
      if \<not> isfile E (world s) memory_dump_path
      then (''Error: Memory dump file not found at '' @ memory_dump_path, s)
      else run_volatility E [''-f'', memory_dump_path, ''windows.info.Info''] s)"

definition run_pstree :: "'w os \<Rightarrow> string \<Rightarrow> 'w state \<Rightarrow> string \<times> 'w state" where
  "run_pstree E memory_dump_path s =
     (let memory_dump_path = normpath E memory_dump_path in
      if \<not> isfile E (world s) memory_dump_path
      then (''Error: Memory dump file not found at '' @ memory_dump_path, s)
      else run_volatility E [''-f'', memory_dump_path, ''windows.pstree.PsTree''] s)"

definition run_pslist :: "'w os \<Rightarrow> string \<Rightarrow> 'w state \<Rightarrow> string \<times> 'w state" where
  "run_pslist E memory_dump_path s =
     (let memory_dump_path = normpath E memory_dump_path in
      if \<not> isfile E (world s) memory_dump_path
      then (''Error: Memory dump file not found at '' @ memory_dump_path, s)
      else run_volatility E [''-f'', memory_dump_path, ''windows.pslist.PsList''] s)"

definition run_psscan :: "'w os \<Rightarrow> string \<Rightarrow> 'w state \<Rightarrow> string \<times> 'w state" where
  "run_psscan E memory_dump_path s =
     (let memory_dump_path = normpath E memory_dump_path in
      if \<not> isfile E (world s) memory_dump_path
      then (''Error: Memory dump file not found at '' @ memory_dump_path, s)
      else run_volatility E [''-f'', memory_dump_path, ''windows.psscan.PsScan''] s)"

definition run_netscan :: "'w os \<Rightarrow> string \<Rightarrow> 'w state \<Rightarrow> string \<times> 'w state" where
  "run_netscan E memory_dump_path s =
     (let memory_dump_path = normpath E memory_dump_path in
      if \<not> isfile E (world s) memory_dump_path
      then (''Error: Memory dump file not found at '' @ memory_dump_path, s)
      else run_volatility E [''-f'', memory_dump_path, ''windows.netscan.NetScan''] s)"

definition run_cmdline :: "'w os \<Rightarrow> string \<Rightarrow> 'w state \<Rightarrow> string \<times> 'w state" where
  "run_cmdline E memory_dump_path s =
     (let memory_dump_path = normpath E memory_dump_path in
      if \<not> isfile E (world s) memory_dump_path
      then (''Error: Memory dump file not found at '' @ memory_dump_path, s)
      else run_volatility E [''-f'', memory_dump_path, ''windows.cmdline.CmdLine''] s)"

definition run_filescan :: "'w os \<Rightarrow> string \<Rightarrow> 'w state \<Rightarrow> string \<times> 'w state" where
  "run_filescan E memory_dump_path s =
     (let memory_dump_path = normpath E memory_dump_path in
      if \<not> isfile E (world s) memory_dump_path
      then (''Error: Memory dump file not found at '' @ memory_dump_path, s)
      else run_volatility E [''-f'', memory_dump_path, ''windows.filescan.FileScan''] s)"

definition run_malfind ::
  "'w os \<Rightarrow> string \<Rightarrow> string option \<Rightarrow> 'w state \<Rightarrow> (py_exception + string) \<times> 'w state" where
  "run_malfind E memory_dump_path dump_dir s =
     (let memory_dump_path = normpath E memory_dump_path in
      if \<not> isfile E (world s) memory_dump_path
      then (Inr (''Error: Memory dump file not found at '' @ memory_dump_path), s)
      else
        let cmd_args = [''-f'', memory_dump_path, ''windows.malfind.Malfind''] in
        case (case truthy dump_dir of
                None \<Rightarrow> (None, dump_dir, cmd_args, world s)
              | Some d \<Rightarrow>
                  let d = normpath E d;
                      (failure, w1) = (if \<not> isdir E (world s) d then makedirs E (world s) d
                                       else (None, world s))
                  in (failure, Some d, cmd_args @ [''--dump-dir'', d], w1))
        of
          (Some e, _, _, w1) \<Rightarrow>
            (Inr (''Error creating dump directory: '' @ str_exc e), s\<lparr>world := w1\<rparr>)
        | (None, dump_dir, cmd_args, w1) \<Rightarrow>
            let (result, s2) = run_volatility E cmd_args (s\<lparr>world := w1\<rparr>) in
            (case truthy dump_dir of
               None \<Rightarrow> (Inr result, s2)
             | Some d \<Rightarrow>
                 if path_exists E (world s2) d
                 then (case listdir E (world s2) d of
                         Inl e \<Rightarrow> (Inl e, s2)
                       | Inr dumped_files \<Rightarrow>
                           if dumped_files \<noteq> []
                           then (Inr (result @ [NL, NL] @ ''Dumped '' @ str_nat (length dumped_files)
                                      @ '' suspicious memory sections to '' @ d), s2)
                           else (Inr result, s2))
                 else (Inr result, s2)))"

definition run_dlllist ::
  "'w os \<Rightarrow> string \<Rightarrow> int option \<Rightarrow> 'w state \<Rightarrow> string \<times> 'w state" where
  "run_dlllist E memory_dump_path pid s =
     (let memory_dump_path = normpath E memory_dump_path in
      if \<not> isfile E (world s) memory_dump_path
      then (''Error: Memory dump file not found at '' @ memory_dump_path, s)
      else
        let cmd_args = [''-f'', memory_dump_path, ''windows.dlllist.DllList''];
            cmd_args = (case pid of None \<Rightarrow> cmd_args
                        | Some p \<Rightarrow> cmd_args @ [''--pid'', str_int p])
        in run_volatility E cmd_args s)"

definition run_handles ::
  "'w os \<Rightarrow> string \<Rightarrow> int option \<Rightarrow> 'w state \<Rightarrow> string \<times> 'w state" where
  "run_handles E memory_dump_path pid s =
     (let memory_dump_path = normpath E memory_dump_path in
      if \<not> isfile E (world s) memory_dump_path
      then (''Error: Memory dump file not found at '' @ memory_dump_path, s)
      else
        let cmd_args = [''-f'', memory_dump_path, ''windows.handles.Handles''];
            cmd_args = (case pid of None \<Rightarrow> cmd_args
                        | Some p \<Rightarrow> cmd_args @ [''--pid'', str_int p])
        in run_volatility E cmd_args s)"

definition run_memmap :: "'w os \<Rightarrow> string \<Rightarrow> int \<Rightarrow> 'w state \<Rightarrow> string \<times> 'w state" where
  "run_memmap E memory_dump_path pid s =
     (let memory_dump_path = normpath E memory_dump_path in
      if \<not> isfile E (world s) memory_dump_path
      then (''Error: Memory dump file not found at '' @ memory_dump_path, s)
      else run_volatility E
             [''-f'', memory_dump_path, ''windows.memmap.Memmap'', ''--pid'', str_int pid] s)"

definition run_custom_plugin ::
  "'w os \<Rightarrow> string \<Rightarrow> string \<Rightarrow> string \<Rightarrow> 'w state \<Rightarrow> string \<times> 'w state" where
  "run_custom_plugin E memory_dump_path plugin_name additional_args s =
     (let memory_dump_path = normpath E memory_dump_path in
      if \<not> isfile E (world s) memory_dump_path
      then (''Error: Memory dump file not found at '' @ memory_dump_path, s)
      else
        let cmd_args = [''-f'', memory_dump_path, plugin_name];
            cmd_args = (if additional_args \<noteq> [] then cmd_args @ py_split additional_args
                        else cmd_args)
        in run_volatility E cmd_args s)"

section \<open>Looking for memory dumps\<close>

definition memory_extensions :: "string list" where
  "memory_extensions =
     [''.raw'', ''.vmem'', ''.dmp'', ''.mem'', ''.bin'', ''.img'', ''.001'', ''.dump'']"

definition is_memory_file :: "string \<Rightarrow> bool" where
  "is_memory_file file = list_ex (\<lambda>ext. endswith (py_lower file) ext) memory_extensions"

text \<open>The inner loop, over the files of one directory of the walk.\<close>

fun scan_files ::
  "'w os \<Rightarrow> 'w \<Rightarrow> string \<Rightarrow> string list \<Rightarrow> string list \<Rightarrow> py_exception + string list" where
  "scan_files E w root [] memory_files = Inr memory_files"
| "scan_files E w root (file # files) memory_files =
     (if is_memory_file file
      then (let full_path = path_join E root file in
            case getsize E w full_path of
              Inl e \<Rightarrow> Inl e
            | Inr sz \<Rightarrow>
                scan_files E w root files
                  (memory_files @ [full_path @ '' (Size: '' @ format_2f (size_mb sz) @ '' MB)'']))
      else scan_files E w root files memory_files)"

text \<open>The outer loop, over \<^verbatim>\<open>os.walk(search_dir)\<close>.\<close>

fun scan_walk ::
  "'w os \<Rightarrow> 'w \<Rightarrow> (string \<times> string list \<times> string list) list \<Rightarrow> string list
     \<Rightarrow> py_exception + string list" where
  "scan_walk E w [] memory_files = Inr memory_files"
| "scan_walk E w ((root, _, files) # rest) memory_files =
     (case scan_files E w root files memory_files of
        Inl e \<Rightarrow> Inl e
      | Inr memory_files \<Rightarrow> scan_walk E w rest memory_files)"

definition list_memory_dumps :: "'w os \<Rightarrow> string option \<Rightarrow> 'w \<Rightarrow> py_exception + string" where
  "list_memory_dumps E search_dir w =
     (case (case truthy search_dir of None \<Rightarrow> getcwd E w | Some d \<Rightarrow> Inr d) of
        Inl e \<Rightarrow> Inl e
      | Inr search_dir \<Rightarrow>
          let search_dir = normpath E search_dir in
          if \<not> isdir E w search_dir
          then Inr (''Error: Directory not found at '' @ search_dir)
          else (case scan_walk E w (walk E w search_dir) [] of
                  Inl e \<Rightarrow> Inl e
                | Inr memory_files \<Rightarrow>
                    if memory_files = []
                    then Inr (''No memory dump files found in '' @ search_dir)
                    else Inr (''Found memory dump files:'' @ [NL] @ py_join [NL] memory_files)))"

section \<open>The plugin catalogue\<close>

text \<open>
  The loop of \<^verbatim>\<open>get_volatility_plugins\<close> over the lines of the help text: the lines left,
  the flag \<^verbatim>\<open>capture\<close> and the list \<^verbatim>\<open>plugins\<close>. \<^verbatim>\<open>continue\<close> goes on with the next line,
  \<^verbatim>\<open>break\<close> returns the list.
\<close>

fun scan_lines :: "string list \<Rightarrow> bool \<Rightarrow> string list \<Rightarrow> string list" where
  "scan_lines [] capture plugins = plugins"
| "scan_lines (line # rest) capture plugins =
     (if py_strip line = ''Plugins'' then scan_lines rest True plugins
      else if capture \<and> py_strip line = [] then plugins
      else if capture then scan_lines rest capture (plugins @ [py_strip line])
      else scan_lines rest capture plugins)"

definition get_volatility_plugins :: "'w os \<Rightarrow> 'w state \<Rightarrow> string \<times> 'w state" where
  "get_volatility_plugins E s =
     (let (output, s') = run_volatility E [''-h''] s;
          plugins = scan_lines (split_on NL output) False []
      in (json_dumps_indent2 plugins, s'))"

definition get_plugin_help :: "'w os \<Rightarrow> string \<Rightarrow> 'w state \<Rightarrow> string \<times> 'w state" where
  "get_plugin_help E plugin s = run_volatility E [plugin, ''--help''] s"

section \<open>The argument vector as the specification words it\<close>

text \<open>
  The interpreter and the entry script, then \<^verbatim>\<open>-f\<close> and the image when there is one, the
  subcommand, and the optional flags: dump directory, process identifier, free-form
  arguments.
\<close>

definition spec_argv ::
  "'w os \<Rightarrow> string option \<Rightarrow> string \<Rightarrow> string option \<Rightarrow> int option \<Rightarrow> string list
     \<Rightarrow> string list" where
  "spec_argv E mem subcommand dump_dir pid extra =
     [VOLATILITY_PYTHON E, VOLATILITY_SCRIPT E]
     @ (case mem of None \<Rightarrow> [] | Some p \<Rightarrow> [''-f'', p])
     @ [subcommand]
     @ (case dump_dir of None \<Rightarrow> [] | Some d \<Rightarrow> [''--dump-dir'', d])
     @ (case pid of None \<Rightarrow> [] | Some n \<Rightarrow> [''--pid'', str_int n])
     @ extra"

text \<open>
  The plugin names as the specification words them, on the lines of the help text: the
  lines up to and with the first heading line are left out, the lines after it are taken up
  to the first blank one, each trimmed.
\<close>

definition spec_plugins :: "string list \<Rightarrow> string list" where
  "spec_plugins ls =
     map py_strip
       (takeWhile (\<lambda>l. py_strip l \<noteq> [])
          (drop 1 (dropWhile (\<lambda>l. py_strip l \<noteq> ''Plugins'') ls)))"

text \<open>
  The files a walk found, each with the directory it stands in, in the order of the walk;
  and the line of the report for a file of a given size.
\<close>

definition walked_files ::
  "(string \<times> string list \<times> string list) list \<Rightarrow> (string \<times> string) list" where
  "walked_files tree = concat (map (\<lambda>(root, dirs, files). map (\<lambda>file. (root, file)) files) tree)"

definition report_line :: "string \<Rightarrow> 64 word \<Rightarrow> string" where
  "report_line full_path sz = full_path @ '' (Size: '' @ format_2f (size_mb sz) @ '' MB)''"

section \<open>An example environment\<close>

text \<open>
  A small world to run the operations in: regular files with their sizes, directories
  with the names of the files directly in them, and a child process whose outcome and
  whose effect on the world are given. Paths are kept as they are, joined with a slash;
  bytes below 128 decode to their characters, any other byte to a question mark.
\<close>

record example_world =
  ex_files :: "(string \<times> 64 word) list"
  ex_dirs :: "(string \<times> string list) list"

definition example_os ::
  "proc_outcome \<Rightarrow> (example_world \<Rightarrow> example_world) \<Rightarrow> example_world os" where
  "example_os outcome effect =
     \<lparr> sys_executable = ''python3'',
       normpath = (\<lambda>p. p),
       path_join = (\<lambda>a b. a @ ''/'' @ b),
       isfile = (\<lambda>w p. map_of (ex_files w) p \<noteq> None),
       isdir = (\<lambda>w p. map_of (ex_dirs w) p \<noteq> None),
       path_exists = (\<lambda>w p. map_of (ex_files w) p \<noteq> None \<or> map_of (ex_dirs w) p \<noteq> None),
       makedirs = (\<lambda>w p. if map_of (ex_files w) p \<noteq> None
                            then (Some (PyException ''File exists''), w)
                            else (None, w\<lparr>ex_dirs := (p, []) # ex_dirs w\<rparr>)),
       listdir = (\<lambda>w p. case map_of (ex_dirs w) p of
                            None \<Rightarrow> Inl (PyException ''No such directory'')
                          | Some names \<Rightarrow> Inr names),
       getcwd = (\<lambda>w. Inr ''/dumps''),
       walk = (\<lambda>w p. case map_of (ex_dirs w) p of
                         None \<Rightarrow> []
                       | Some names \<Rightarrow> [(p, [], names)]),
       getsize = (\<lambda>w p. case map_of (ex_files w) p of
                            None \<Rightarrow> Inl (PyException ''No such file'')
                          | Some n \<Rightarrow> Inr n),
       subprocess_exec = (\<lambda>w argv cwd. (outcome, effect w)),
       decode_utf8_replace = map (\<lambda>b. if b < 128 then char_of (unat b) else CHR ''?'') \<rparr>"

definition example_state :: "example_world state" where
  "example_state =
     \<lparr> world = \<lparr> ex_files = [(''/cases/mem.raw'', 1048576)], ex_dirs = [(''/cases'', [''mem.raw''])] \<rparr>,
       exec_calls = [] \<rparr>"

text \<open>A child that leaves two files in the directory \<^verbatim>\<open>/out\<close>.\<close>

definition example_dump :: "example_world \<Rightarrow> example_world" where
  "example_dump w = w\<lparr>ex_dirs := (''/out'', [''pid.4.dmp'', ''pid.8.dmp'']) # ex_dirs w\<rparr>"

text \<open>A world with one directory of three files, two of them memory dumps.\<close>

definition example_dumps :: example_world where
  "example_dumps =
     \<lparr> ex_files = [(''/dumps/a.dmp'', 1048576), (''/dumps/b.txt'', 10), (''/dumps/c.RAW'', 131072)],
       ex_dirs = [(''/dumps'', [''a.dmp'', ''b.txt'', ''c.RAW''])] \<rparr>"

definition example_size :: "string \<Rightarrow> 64 word" where
  "example_size full_path = (if full_path = ''/dumps/a.dmp'' then 1048576 else 131072)"

text \<open>
  A world whose directory lists a dump that cannot be read (a symbolic link whose target
  is gone) beside one that can.
\<close>

definition example_dangling :: example_world where
  "example_dangling =
     \<lparr> ex_files = [(''/dumps/a.dmp'', 1048576)],
       ex_dirs = [(''/dumps'', [''a.dmp'', ''gone.dmp''])] \<rparr>"

text \<open>The bytes of an ASCII text.\<close>

definition ascii :: "string \<Rightarrow> bytes" where
  "ascii l = map (\<lambda>c. of_nat (of_char c)) l"

section \<open>The exit code and the handler\<close>

lemma sublist_prepend: "sublist t e \<Longrightarrow> sublist t (p @ e)"
  unfolding sublist_def by (metis append.assoc)

text \<open>Each call of \<open>run_volatility\<close> hands exactly one argument vector to the spawn call.\<close>

lemma run_volatility_calls:
  "exec_calls (snd (run_volatility E cmd_args s))
     = exec_calls s @ [[VOLATILITY_PYTHON E, VOLATILITY_SCRIPT E] @ cmd_args]"
  by (simp add: run_volatility_def Let_def case_prod_beta split: proc_outcome.splits)

lemma run_volatility_world:
  "world (snd (run_volatility E cmd_args s))
     = snd (subprocess_exec E (world s)
              ([VOLATILITY_PYTHON E, VOLATILITY_SCRIPT E] @ cmd_args) (VOLATILITY_DIR E))"
  by (simp add: run_volatility_def Let_def case_prod_beta split: proc_outcome.splits)


text \<open>
  C3. When the child ends with a return code other than zero, \<open>run_volatility\<close> returns
  the text \<^verbatim>\<open>Error running Volatility command: \<close> followed by the decoded standard error
  and nothing else, so every piece of the decoded standard error is a piece of the
  returned text.
\<close>

theorem run_volatility_nonzero_exit:
  assumes "fst (subprocess_exec E (world s)
                  ([VOLATILITY_PYTHON E, VOLATILITY_SCRIPT E] @ cmd_args) (VOLATILITY_DIR E))
           = Exited rc out err"
    and "rc \<noteq> 0"
  shows "fst (run_volatility E cmd_args s)
           = ''Error running Volatility command: '' @ decode_utf8_replace E err
         \<and> (\<forall>t. sublist t (decode_utf8_replace E err)
                \<longrightarrow> sublist t (fst (run_volatility E cmd_args s)))"
proof -
  have eq: "fst (run_volatility E cmd_args s)
           = ''Error running Volatility command: '' @ decode_utf8_replace E err"
    using assms by (simp add: run_volatility_def Let_def case_prod_beta)
  show ?thesis
    unfolding eq by (intro conjI allI impI refl sublist_prepend)
qed

theorem run_volatility_nonzero_exit_witness:
  "fst (subprocess_exec (example_os (Exited 1 [] (ascii ''boom'')) id) (world example_state)
          ([VOLATILITY_PYTHON (example_os (Exited 1 [] (ascii ''boom'')) id),
            VOLATILITY_SCRIPT (example_os (Exited 1 [] (ascii ''boom'')) id)] @ [''-h''])
          (VOLATILITY_DIR (example_os (Exited 1 [] (ascii ''boom'')) id)))
     = Exited 1 [] (ascii ''boom'')
   \<and> (1::int) \<noteq> 0
   \<and> fst (run_volatility (example_os (Exited 1 [] (ascii ''boom'')) id) [''-h''] example_state)
       = ''Error running Volatility command: boom''
   \<and> sublist ''boom''
        (fst (run_volatility (example_os (Exited 1 [] (ascii ''boom'')) id) [''-h''] example_state))"
proof -
  let ?E = "example_os (Exited 1 [] (ascii ''boom'')) id"
  have h: "fst (subprocess_exec ?E (world example_state)
                  ([VOLATILITY_PYTHON ?E, VOLATILITY_SCRIPT ?E] @ [''-h'']) (VOLATILITY_DIR ?E))
           = Exited 1 [] (ascii ''boom'')"
    by (simp add: example_os_def)
  have d: "decode_utf8_replace ?E (ascii ''boom'') = ''boom''"
    by (simp add: example_os_def ascii_def char_of_def bit_0)
  have r: "fst (run_volatility ?E [''-h''] example_state)
             = ''Error running Volatility command: '' @ decode_utf8_replace ?E (ascii ''boom'')
           \<and> (\<forall>t. sublist t (decode_utf8_replace ?E (ascii ''boom''))
                  \<longrightarrow> sublist t (fst (run_volatility ?E [''-h''] example_state)))"
    by (rule run_volatility_nonzero_exit [OF h]) simp
  have "sublist ''boom'' (fst (run_volatility ?E [''-h''] example_state))"
    using r d by (metis sublist_order.order.refl)
  moreover have "fst (run_volatility ?E [''-h''] example_state)
                   = ''Error running Volatility command: boom''"
    using r d by simp
  ultimately show ?thesis
    using h by simp
qed

text \<open>
  C4. \<open>run_volatility\<close> returns a string whatever the spawn does: the spawn and the wait
  stand inside the \<^verbatim>\<open>try\<close> block, and when either raises an exception the handler
  returns \<^verbatim>\<open>Exception running Volatility: \<close> followed by the description of the
  exception; nothing is propagated to the caller.
\<close>

theorem run_volatility_catches:
  assumes "fst (subprocess_exec E (world s)
                  ([VOLATILITY_PYTHON E, VOLATILITY_SCRIPT E] @ cmd_args) (VOLATILITY_DIR E))
           = Raised e"
  shows "fst (run_volatility E cmd_args s) = ''Exception running Volatility: '' @ str_exc e"
  using assms by (simp add: run_volatility_def Let_def case_prod_beta)

theorem run_volatility_catches_witness:
  "fst (subprocess_exec (example_os (Raised (PyException ''No such file or directory'')) id)
          (world example_state)
          ([VOLATILITY_PYTHON (example_os (Raised (PyException ''No such file or directory'')) id),
            VOLATILITY_SCRIPT (example_os (Raised (PyException ''No such file or directory'')) id)]
           @ [''-h''])
          (VOLATILITY_DIR (example_os (Raised (PyException ''No such file or directory'')) id)))
     = Raised (PyException ''No such file or directory'')
   \<and> fst (run_volatility (example_os (Raised (PyException ''No such file or directory'')) id)
            [''-h''] example_state)
       = ''Exception running Volatility: No such file or directory''"
proof -
  let ?E = "example_os (Raised (PyException ''No such file or directory'')) id"
  have h: "fst (subprocess_exec ?E (world example_state)
                  ([VOLATILITY_PYTHON ?E, VOLATILITY_SCRIPT ?E] @ [''-h'']) (VOLATILITY_DIR ?E))
           = Raised (PyException ''No such file or directory'')"
    by (simp add: example_os_def)
  from run_volatility_catches [OF h] h show ?thesis
    by simp
qed

text \<open>
  C5. When the child ends with return code zero, \<open>run_volatility\<close> returns the decoded
  standard output and nothing else. The decoding is \<^verbatim>\<open>decode('utf-8', errors='replace')\<close>,
  which never raises.
\<close>

theorem run_volatility_zero_exit:
  assumes "fst (subprocess_exec E (world s)
                  ([VOLATILITY_PYTHON E, VOLATILITY_SCRIPT E] @ cmd_args) (VOLATILITY_DIR E))
           = Exited 0 out err"
  shows "fst (run_volatility E cmd_args s) = decode_utf8_replace E out"
  using assms by (simp add: run_volatility_def Let_def case_prod_beta)

theorem run_volatility_zero_exit_witness:
  "fst (subprocess_exec (example_os (Exited 0 (ascii ''PID 4 System'') []) id)
          (world example_state)
          ([VOLATILITY_PYTHON (example_os (Exited 0 (ascii ''PID 4 System'') []) id),
            VOLATILITY_SCRIPT (example_os (Exited 0 (ascii ''PID 4 System'') []) id)]
           @ [''-f'', ''/cases/mem.raw'', ''windows.pslist.PsList''])
          (VOLATILITY_DIR (example_os (Exited 0 (ascii ''PID 4 System'') []) id)))
     = Exited 0 (ascii ''PID 4 System'') []
   \<and> fst (run_volatility (example_os (Exited 0 (ascii ''PID 4 System'') []) id)
            [''-f'', ''/cases/mem.raw'', ''windows.pslist.PsList''] example_state)
       = ''PID 4 System''
   \<and> fst (run_pslist (example_os (Exited 0 (ascii ''PID 4 System'') []) id)
            ''/cases/mem.raw'' example_state)
       = ''PID 4 System''"
proof -
  let ?E = "example_os (Exited 0 (ascii ''PID 4 System'') []) id"
  let ?args = "[''-f'', ''/cases/mem.raw'', ''windows.pslist.PsList'']"
  have h: "fst (subprocess_exec ?E (world example_state)
                  ([VOLATILITY_PYTHON ?E, VOLATILITY_SCRIPT ?E] @ ?args) (VOLATILITY_DIR ?E))
           = Exited 0 (ascii ''PID 4 System'') []"
    by (simp add: example_os_def)
  have d: "decode_utf8_replace ?E (ascii ''PID 4 System'') = ''PID 4 System''"
    by (simp add: example_os_def ascii_def char_of_def bit_0)
  have r: "fst (run_volatility ?E ?args example_state) = ''PID 4 System''"
    using run_volatility_zero_exit [OF h] d by simp
  have f: "isfile ?E (world example_state) (normpath ?E ''/cases/mem.raw'')"
    by (simp add: example_os_def example_state_def)
  have n: "normpath ?E ''/cases/mem.raw'' = ''/cases/mem.raw''"
    by (simp add: example_os_def)
  have "fst (run_pslist ?E ''/cases/mem.raw'' example_state) = ''PID 4 System''"
    using f r unfolding run_pslist_def Let_def n by simp
  with r h show ?thesis
    by simp
qed

section \<open>The check of the memory image\<close>

text \<open>
  C1. Each of the twelve operations on a memory image normalises the path first and tests
  that it is a regular file. When it is not, the operation returns
  \<^verbatim>\<open>Error: Memory dump file not found at \<close> followed by the normalised path, and the
  state it returns is the state it was given: the world is untouched and the log of spawn
  calls has no new entry, so \<open>run_volatility\<close> was not called.
\<close>

theorem missing_image_short_circuits:
  assumes "\<not> isfile E (world s) (normpath E p)"
  shows "get_image_info E p s = (''Error: Memory dump file not found at '' @ normpath E p, s)
       \<and> run_pstree E p s = (''Error: Memory dump file not found at '' @ normpath E p, s)
       \<and> run_pslist E p s = (''Error: Memory dump file not found at '' @ normpath E p, s)
       \<and> run_psscan E p s = (''Error: Memory dump file not found at '' @ normpath E p, s)
       \<and> run_netscan E p s = (''Error: Memory dump file not found at '' @ normpath E p, s)
       \<and> run_malfind E p dump_dir s
           = (Inr (''Error: Memory dump file not found at '' @ normpath E p), s)
       \<and> run_cmdline E p s = (''Error: Memory dump file not found at '' @ normpath E p, s)
       \<and> run_dlllist E p pid s = (''Error: Memory dump file not found at '' @ normpath E p, s)
       \<and> run_handles E p pid s = (''Error: Memory dump file not found at '' @ normpath E p, s)
       \<and> run_filescan E p s = (''Error: Memory dump file not found at '' @ normpath E p, s)
       \<and> run_memmap E p pid' s = (''Error: Memory dump file not found at '' @ normpath E p, s)
       \<and> run_custom_plugin E p plugin_name additional_args s
           = (''Error: Memory dump file not found at '' @ normpath E p, s)"
proof (intro conjI)
  show "get_image_info E p s = (''Error: Memory dump file not found at '' @ normpath E p, s)"
    using assms by (simp add: get_image_info_def)
  show "run_pstree E p s = (''Error: Memory dump file not found at '' @ normpath E p, s)"
    using assms by (simp add: run_pstree_def)
  show "run_pslist E p s = (''Error: Memory dump file not found at '' @ normpath E p, s)"
    using assms by (simp add: run_pslist_def)
  show "run_psscan E p s = (''Error: Memory dump file not found at '' @ normpath E p, s)"
    using assms by (simp add: run_psscan_def)
  show "run_netscan E p s = (''Error: Memory dump file not found at '' @ normpath E p, s)"
    using assms by (simp add: run_netscan_def)
  show "run_malfind E p dump_dir s
          = (Inr (''Error: Memory dump file not found at '' @ normpath E p), s)"
    using assms by (simp add: run_malfind_def)
  show "run_cmdline E p s = (''Error: Memory dump file not found at '' @ normpath E p, s)"
    using assms by (simp add: run_cmdline_def)
  show "run_dlllist E p pid s = (''Error: Memory dump file not found at '' @ normpath E p, s)"
    using assms by (simp add: run_dlllist_def)
  show "run_handles E p pid s = (''Error: Memory dump file not found at '' @ normpath E p, s)"
    using assms by (simp add: run_handles_def)
  show "run_filescan E p s = (''Error: Memory dump file not found at '' @ normpath E p, s)"
    using assms by (simp add: run_filescan_def)
  show "run_memmap E p pid' s = (''Error: Memory dump file not found at '' @ normpath E p, s)"
    using assms by (simp add: run_memmap_def)
  show "run_custom_plugin E p plugin_name additional_args s
          = (''Error: Memory dump file not found at '' @ normpath E p, s)"
    using assms by (simp add: run_custom_plugin_def)
qed

theorem missing_image_short_circuits_witness:
  "\<not> isfile (example_os (Exited 0 [] []) id) (world example_state)
       (normpath (example_os (Exited 0 [] []) id) ''/cases/gone.raw'')
   \<and> get_image_info (example_os (Exited 0 [] []) id) ''/cases/gone.raw'' example_state
       = (''Error: Memory dump file not found at /cases/gone.raw'', example_state)
   \<and> run_malfind (example_os (Exited 0 [] []) id) ''/cases/gone.raw'' (Some ''/out'') example_state
       = (Inr ''Error: Memory dump file not found at /cases/gone.raw'', example_state)
   \<and> run_custom_plugin (example_os (Exited 0 [] []) id) ''/cases/gone.raw''
         ''windows.svcscan.SvcScan'' ''--help'' example_state
       = (''Error: Memory dump file not found at /cases/gone.raw'', example_state)
   \<and> exec_calls (snd (run_memmap (example_os (Exited 0 [] []) id) ''/cases/gone.raw'' 4
                          example_state)) = []"
proof -
  let ?E = "example_os (Exited 0 [] []) id"
  have h: "\<not> isfile ?E (world example_state) (normpath ?E ''/cases/gone.raw'')"
    by (simp add: example_os_def example_state_def)
  have n: "normpath ?E ''/cases/gone.raw'' = ''/cases/gone.raw''"
    by (simp add: example_os_def)
  have e: "exec_calls example_state = []"
    by (simp add: example_state_def)
  note t = missing_image_short_circuits [OF h, unfolded n, simplified]
  from t [of "Some ''/out''" "None" 4 "''windows.svcscan.SvcScan''" "''--help''"] h e
  show ?thesis
    by simp
qed

section \<open>The argument vector\<close>

text \<open>What \<open>run_malfind\<close> hands to the spawn call, once the image is there.\<close>

lemma run_malfind_calls:
  assumes "isfile E (world s) (normpath E p)"
  shows "exec_calls (snd (run_malfind E p dump_dir s))
           = (case truthy dump_dir of
                None \<Rightarrow>
                  exec_calls s
                  @ [spec_argv E (Some (normpath E p)) ''windows.malfind.Malfind'' None None []]
              | Some d \<Rightarrow>
                  if \<not> isdir E (world s) (normpath E d)
                     \<and> fst (makedirs E (world s) (normpath E d)) \<noteq> None
                  then exec_calls s
                  else exec_calls s
                       @ [spec_argv E (Some (normpath E p)) ''windows.malfind.Malfind''
                            (Some (normpath E d)) None []])"
proof (cases "truthy dump_dir")
  case None
  then show ?thesis
    using assms run_volatility_calls [of E _ s]
    by (simp add: run_malfind_def Let_def case_prod_beta spec_argv_def)
next
  case (Some d)
  have t: "truthy (Some (normpath E d)) = None \<or> truthy (Some (normpath E d)) = Some (normpath E d)"
    by (simp add: truthy_def)
  show ?thesis
  proof (cases "isdir E (world s) (normpath E d)")
    case True
    with Some assms t show ?thesis
      by (auto simp add: run_malfind_def Let_def case_prod_beta spec_argv_def
            run_volatility_calls split: sum.splits)
  next
    case False
    show ?thesis
    proof (cases "fst (makedirs E (world s) (normpath E d))")
      case None
      with False Some assms t show ?thesis
        by (auto simp add: run_malfind_def Let_def case_prod_beta spec_argv_def
              run_volatility_calls split: sum.splits)
    next
      case (Some e)
      with False \<open>truthy dump_dir = Some d\<close> assms show ?thesis
        by (simp add: run_malfind_def Let_def case_prod_beta)
    qed
  qed
qed

text \<open>
  C2. Once the image is an existing file, each operation makes exactly one spawn call, and
  its argument vector is the one the specification words: the interpreter and the entry
  script of the tool, \<^verbatim>\<open>-f\<close> and the normalised image path, the subcommand (the plugin name
  the caller gave, for \<open>run_custom_plugin\<close>), then the dump directory flag, the process
  identifier flag and the free-form arguments, in this order, each only where the
  operation has it. \<open>list_available_plugins\<close> needs no image and sends \<^verbatim>\<open>-h\<close> alone.
  \<open>run_malfind\<close> makes no spawn call when the dump directory cannot be created.
\<close>

theorem argument_vector_shape:
  assumes "isfile E (world s) (normpath E p)"
  shows "exec_calls (snd (list_available_plugins E s))
           = exec_calls s @ [spec_argv E None ''-h'' None None []]
       \<and> exec_calls (snd (get_image_info E p s))
           = exec_calls s @ [spec_argv E (Some (normpath E p)) ''windows.info.Info'' None None []]
       \<and> exec_calls (snd (run_pstree E p s))
           = exec_calls s @ [spec_argv E (Some (normpath E p)) ''windows.pstree.PsTree'' None None []]
       \<and> exec_calls (snd (run_pslist E p s))
           = exec_calls s @ [spec_argv E (Some (normpath E p)) ''windows.pslist.PsList'' None None []]
       \<and> exec_calls (snd (run_psscan E p s))
           = exec_calls s @ [spec_argv E (Some (normpath E p)) ''windows.psscan.PsScan'' None None []]
       \<and> exec_calls (snd (run_netscan E p s))
           = exec_calls s @ [spec_argv E (Some (normpath E p)) ''windows.netscan.NetScan'' None None []]
       \<and> exec_calls (snd (run_cmdline E p s))
           = exec_calls s @ [spec_argv E (Some (normpath E p)) ''windows.cmdline.CmdLine'' None None []]
       \<and> exec_calls (snd (run_filescan E p s))
           = exec_calls s @ [spec_argv E (Some (normpath E p)) ''windows.filescan.FileScan'' None None []]
       \<and> exec_calls (snd (run_malfind E p dump_dir s))
           = (case truthy dump_dir of
                None \<Rightarrow>
                  exec_calls s
                  @ [spec_argv E (Some (normpath E p)) ''windows.malfind.Malfind'' None None []]
              | Some d \<Rightarrow>
                  if \<not> isdir E (world s) (normpath E d)
                     \<and> fst (makedirs E (world s) (normpath E d)) \<noteq> None
                  then exec_calls s
                  else exec_calls s
                       @ [spec_argv E (Some (normpath E p)) ''windows.malfind.Malfind''
                            (Some (normpath E d)) None []])
       \<and> exec_calls (snd (run_dlllist E p pid s))
           = exec_calls s @ [spec_argv E (Some (normpath E p)) ''windows.dlllist.DllList'' None pid []]
       \<and> exec_calls (snd (run_handles E p pid s))
           = exec_calls s @ [spec_argv E (Some (normpath E p)) ''windows.handles.Handles'' None pid []]
       \<and> exec_calls (snd (run_memmap E p pid' s))
           = exec_calls s
             @ [spec_argv E (Some (normpath E p)) ''windows.memmap.Memmap'' None (Some pid') []]
       \<and> exec_calls (snd (run_custom_plugin E p plugin_name additional_args s))
           = exec_calls s
             @ [spec_argv E (Some (normpath E p)) plugin_name None None (py_split additional_args)]"
proof (intro conjI)
  show "exec_calls (snd (list_available_plugins E s))
           = exec_calls s @ [spec_argv E None ''-h'' None None []]"
    by (simp add: list_available_plugins_def run_volatility_calls spec_argv_def)
  show "exec_calls (snd (get_image_info E p s))
           = exec_calls s @ [spec_argv E (Some (normpath E p)) ''windows.info.Info'' None None []]"
    using assms by (simp add: get_image_info_def run_volatility_calls spec_argv_def)
  show "exec_calls (snd (run_pstree E p s))
           = exec_calls s @ [spec_argv E (Some (normpath E p)) ''windows.pstree.PsTree'' None None []]"
    using assms by (simp add: run_pstree_def run_volatility_calls spec_argv_def)
  show "exec_calls (snd (run_pslist E p s))
           = exec_calls s @ [spec_argv E (Some (normpath E p)) ''windows.pslist.PsList'' None None []]"
    using assms by (simp add: run_pslist_def run_volatility_calls spec_argv_def)
  show "exec_calls (snd (run_psscan E p s))
           = exec_calls s @ [spec_argv E (Some (normpath E p)) ''windows.psscan.PsScan'' None None []]"
    using assms by (simp add: run_psscan_def run_volatility_calls spec_argv_def)
  show "exec_calls (snd (run_netscan E p s))
           = exec_calls s @ [spec_argv E (Some (normpath E p)) ''windows.netscan.NetScan'' None None []]"
    using assms by (simp add: run_netscan_def run_volatility_calls spec_argv_def)
  show "exec_calls (snd (run_cmdline E p s))
           = exec_calls s @ [spec_argv E (Some (normpath E p)) ''windows.cmdline.CmdLine'' None None []]"
    using assms by (simp add: run_cmdline_def run_volatility_calls spec_argv_def)
  show "exec_calls (snd (run_filescan E p s))
           = exec_calls s @ [spec_argv E (Some (normpath E p)) ''windows.filescan.FileScan'' None None []]"
    using assms by (simp add: run_filescan_def run_volatility_calls spec_argv_def)
  show "exec_calls (snd (run_malfind E p dump_dir s))
           = (case truthy dump_dir of
                None \<Rightarrow>
                  exec_calls s
                  @ [spec_argv E (Some (normpath E p)) ''windows.malfind.Malfind'' None None []]
              | Some d \<Rightarrow>
                  if \<not> isdir E (world s) (normpath E d)
                     \<and> fst (makedirs E (world s) (normpath E d)) \<noteq> None
                  then exec_calls s
                  else exec_calls s
                       @ [spec_argv E (Some (normpath E p)) ''windows.malfind.Malfind''
                            (Some (normpath E d)) None []])"
    using assms by (rule run_malfind_calls)
  show "exec_calls (snd (run_dlllist E p pid s))
           = exec_calls s @ [spec_argv E (Some (normpath E p)) ''windows.dlllist.DllList'' None pid []]"
    using assms by (simp add: run_dlllist_def run_volatility_calls spec_argv_def Let_def split: option.splits)
  show "exec_calls (snd (run_handles E p pid s))
           = exec_calls s @ [spec_argv E (Some (normpath E p)) ''windows.handles.Handles'' None pid []]"
    using assms by (simp add: run_handles_def run_volatility_calls spec_argv_def Let_def split: option.splits)
  show "exec_calls (snd (run_memmap E p pid' s))
           = exec_calls s
             @ [spec_argv E (Some (normpath E p)) ''windows.memmap.Memmap'' None (Some pid') []]"
    using assms by (simp add: run_memmap_def run_volatility_calls spec_argv_def)
  show "exec_calls (snd (run_custom_plugin E p plugin_name additional_args s))
           = exec_calls s
             @ [spec_argv E (Some (normpath E p)) plugin_name None None (py_split additional_args)]"
    using assms by (simp add: run_custom_plugin_def run_volatility_calls spec_argv_def Let_def py_split_def)
qed

theorem argument_vector_shape_witness:
  "isfile (example_os (Exited 0 [] []) id) (world example_state)
     (normpath (example_os (Exited 0 [] []) id) ''/cases/mem.raw'')
   \<and> exec_calls (snd (run_pslist (example_os (Exited 0 [] []) id) ''/cases/mem.raw''
                          example_state))
       = [[''python3'', VOLATILITY_SCRIPT (example_os (Exited 0 [] []) id),
           ''-f'', ''/cases/mem.raw'', ''windows.pslist.PsList'']]
   \<and> exec_calls (snd (run_malfind (example_os (Exited 0 [] []) id) ''/cases/mem.raw''
                          (Some ''/out'') example_state))
       = [[''python3'', VOLATILITY_SCRIPT (example_os (Exited 0 [] []) id),
           ''-f'', ''/cases/mem.raw'', ''windows.malfind.Malfind'', ''--dump-dir'', ''/out'']]
   \<and> exec_calls (snd (run_memmap (example_os (Exited 0 [] []) id) ''/cases/mem.raw'' 4
                          example_state))
       = [[''python3'', VOLATILITY_SCRIPT (example_os (Exited 0 [] []) id),
           ''-f'', ''/cases/mem.raw'', ''windows.memmap.Memmap'', ''--pid'', ''4'']]
   \<and> exec_calls (snd (run_custom_plugin (example_os (Exited 0 [] []) id) ''/cases/mem.raw''
                          ''windows.svcscan.SvcScan'' '' -r  json '' example_state))
       = [[''python3'', VOLATILITY_SCRIPT (example_os (Exited 0 [] []) id),
           ''-f'', ''/cases/mem.raw'', ''windows.svcscan.SvcScan'', ''-r'', ''json'']]"
proof -
  let ?E = "example_os (Exited 0 [] []) id"
  have h: "isfile ?E (world example_state) (normpath ?E ''/cases/mem.raw'')"
    by (simp add: example_os_def example_state_def)
  have n: "normpath ?E ''/cases/mem.raw'' = ''/cases/mem.raw''" "normpath ?E ''/out'' = ''/out''"
    by (simp_all add: example_os_def)
  have e: "exec_calls example_state = []"
    by (simp add: example_state_def)
  have py: "VOLATILITY_PYTHON ?E = ''python3''"
    by (simp add: VOLATILITY_PYTHON_def example_os_def)
  have d: "\<not> isdir ?E (world example_state) ''/out''"
          "fst (makedirs ?E (world example_state) ''/out'') = None"
    by (simp_all add: example_os_def example_state_def)
  have sp: "py_split '' -r  json '' = [''-r'', ''json'']"
    by (simp add: py_split_def py_isspace_def)
  have i: "str_int 4 = ''4''"
    by (simp add: str_int_def str_nat.simps digit_char_def char_of_def bit_0)
  note t = argument_vector_shape [OF h, of "Some ''/out''" None 4 "''windows.svcscan.SvcScan''"
      "'' -r  json ''"]
  from t h show ?thesis
    by (simp add: n e py sp spec_argv_def truthy_def d i)
qed

text \<open>
  The two resources spawn the tool too: the catalogue with \<^verbatim>\<open>-h\<close>, the help of a plugin
  with the plugin name followed by \<^verbatim>\<open>--help\<close>.
\<close>

lemma resource_vectors:
  "exec_calls (snd (get_volatility_plugins E s))
     = exec_calls s @ [[VOLATILITY_PYTHON E, VOLATILITY_SCRIPT E, ''-h'']]
   \<and> exec_calls (snd (get_plugin_help E plugin s))
       = exec_calls s @ [[VOLATILITY_PYTHON E, VOLATILITY_SCRIPT E, plugin, ''--help'']]"
  by (simp add: get_volatility_plugins_def get_plugin_help_def run_volatility_calls Let_def
        case_prod_beta)

section \<open>The process identifier\<close>

text \<open>
  C6. \<open>run_dlllist\<close> and \<open>run_handles\<close> send the vector that ends with the subcommand
  when no process identifier is given, and the same vector followed by \<^verbatim>\<open>--pid\<close> and the
  identifier in decimal when one is given, whatever its value: the flag stands right
  after the subcommand and nothing follows it. The vector depends on the path and the
  identifier only, not on the state the operation runs in.
\<close>

theorem pid_flag_placement:
  assumes "isfile E (world s) (normpath E p)"
    and "isfile E (world s') (normpath E p)"
  shows "exec_calls (snd (run_dlllist E p pid s))
           = exec_calls s
             @ [[VOLATILITY_PYTHON E, VOLATILITY_SCRIPT E, ''-f'', normpath E p,
                 ''windows.dlllist.DllList'']
                @ (case pid of None \<Rightarrow> [] | Some n \<Rightarrow> [''--pid'', str_int n])]
       \<and> exec_calls (snd (run_handles E p pid s))
           = exec_calls s
             @ [[VOLATILITY_PYTHON E, VOLATILITY_SCRIPT E, ''-f'', normpath E p,
                 ''windows.handles.Handles'']
                @ (case pid of None \<Rightarrow> [] | Some n \<Rightarrow> [''--pid'', str_int n])]
       \<and> last (exec_calls (snd (run_dlllist E p pid s')))
           = last (exec_calls (snd (run_dlllist E p pid s)))
       \<and> last (exec_calls (snd (run_handles E p pid s')))
           = last (exec_calls (snd (run_handles E p pid s)))"
proof -
  have dll: "exec_calls (snd (run_dlllist E p pid t))
           = exec_calls t
             @ [[VOLATILITY_PYTHON E, VOLATILITY_SCRIPT E, ''-f'', normpath E p,
                 ''windows.dlllist.DllList'']
                @ (case pid of None \<Rightarrow> [] | Some n \<Rightarrow> [''--pid'', str_int n])]"
    if "isfile E (world t) (normpath E p)" for t
    using that by (simp add: run_dlllist_def run_volatility_calls Let_def split: option.splits)
  have han: "exec_calls (snd (run_handles E p pid t))
           = exec_calls t
             @ [[VOLATILITY_PYTHON E, VOLATILITY_SCRIPT E, ''-f'', normpath E p,
                 ''windows.handles.Handles'']
                @ (case pid of None \<Rightarrow> [] | Some n \<Rightarrow> [''--pid'', str_int n])]"
    if "isfile E (world t) (normpath E p)" for t
    using that by (simp add: run_handles_def run_volatility_calls Let_def split: option.splits)
  show ?thesis
    using assms by (simp add: dll han)
qed

theorem pid_flag_placement_witness:
  "isfile (example_os (Exited 0 [] []) id) (world example_state)
     (normpath (example_os (Exited 0 [] []) id) ''/cases/mem.raw'')
   \<and> isfile (example_os (Exited 0 [] []) id)
       (world (example_state\<lparr>exec_calls := [[''earlier'']]\<rparr>))
       (normpath (example_os (Exited 0 [] []) id) ''/cases/mem.raw'')
   \<and> exec_calls (snd (run_dlllist (example_os (Exited 0 [] []) id) ''/cases/mem.raw'' (Some 0)
                          example_state))
       = [[''python3'', VOLATILITY_SCRIPT (example_os (Exited 0 [] []) id),
           ''-f'', ''/cases/mem.raw'', ''windows.dlllist.DllList'', ''--pid'', ''0'']]
   \<and> exec_calls (snd (run_handles (example_os (Exited 0 [] []) id) ''/cases/mem.raw'' (Some 0)
                          example_state))
       = [[''python3'', VOLATILITY_SCRIPT (example_os (Exited 0 [] []) id),
           ''-f'', ''/cases/mem.raw'', ''windows.handles.Handles'', ''--pid'', ''0'']]
   \<and> last (exec_calls (snd (run_dlllist (example_os (Exited 0 [] []) id) ''/cases/mem.raw''
                                (Some 0) (example_state\<lparr>exec_calls := [[''earlier'']]\<rparr>))))
       = [''python3'', VOLATILITY_SCRIPT (example_os (Exited 0 [] []) id),
          ''-f'', ''/cases/mem.raw'', ''windows.dlllist.DllList'', ''--pid'', ''0'']"
proof -
  let ?E = "example_os (Exited 0 [] []) id"
  have h: "isfile ?E (world example_state) (normpath ?E ''/cases/mem.raw'')"
    by (simp add: example_os_def example_state_def)
  have h': "isfile ?E (world (example_state\<lparr>exec_calls := [[''earlier'']]\<rparr>))
              (normpath ?E ''/cases/mem.raw'')"
    by (simp add: example_os_def example_state_def)
  have n: "normpath ?E ''/cases/mem.raw'' = ''/cases/mem.raw''"
    by (simp add: example_os_def)
  have e: "exec_calls example_state = []"
    by (simp add: example_state_def)
  have py: "VOLATILITY_PYTHON ?E = ''python3''"
    by (simp add: VOLATILITY_PYTHON_def example_os_def)
  have i: "str_int 0 = ''0''"
    by (simp add: str_int_def str_nat.simps digit_char_def char_of_def bit_0)
  from pid_flag_placement [OF h h', of "Some 0"] h h' show ?thesis
    by (simp add: n e py i)
qed

section \<open>The dump directory of run_malfind\<close>

text \<open>
  C7. \<open>run_malfind\<close> with a dump directory (a string that is not empty), on an existing
  image. The directory is normalised. When it is not a directory, \<^verbatim>\<open>os.makedirs\<close>, which
  creates the missing parents too, is called on it: if that raises, the operation returns
  \<^verbatim>\<open>Error creating dump directory: \<close> followed by the description, and the spawn log is as
  it was; otherwise the tool runs in the world \<^verbatim>\<open>makedirs\<close> left. When, after the tool has
  run, the directory exists and its listing is not empty, the returned text is the text of
  \<open>run_volatility\<close> followed by an empty line and one line that counts the direct entries
  of the directory.
\<close>

theorem run_malfind_dump_dir:
  assumes "isfile E (world s) (normpath E p)"
    and "truthy dump_dir = Some d"
  shows "(\<not> isdir E (world s) (normpath E d) \<longrightarrow>
            (\<forall>e w1. makedirs E (world s) (normpath E d) = (Some e, w1) \<longrightarrow>
               run_malfind E p dump_dir s
                 = (Inr (''Error creating dump directory: '' @ str_exc e), s\<lparr>world := w1\<rparr>)))
       \<and> (\<not> isdir E (world s) (normpath E d) \<longrightarrow>
            (\<forall>w1. makedirs E (world s) (normpath E d) = (None, w1) \<longrightarrow>
               snd (run_malfind E p dump_dir s)
                 = snd (run_volatility E
                          [''-f'', normpath E p, ''windows.malfind.Malfind'', ''--dump-dir'',
                           normpath E d]
                          (s\<lparr>world := w1\<rparr>))))
       \<and> (\<forall>w1 result s2 dumped_files.
            (if isdir E (world s) (normpath E d) then w1 = world s
             else makedirs E (world s) (normpath E d) = (None, w1))
            \<and> normpath E d \<noteq> []
            \<and> run_volatility E
                 [''-f'', normpath E p, ''windows.malfind.Malfind'', ''--dump-dir'', normpath E d]
                 (s\<lparr>world := w1\<rparr>) = (result, s2)
            \<and> path_exists E (world s2) (normpath E d)
            \<and> listdir E (world s2) (normpath E d) = Inr dumped_files
            \<and> dumped_files \<noteq> []
            \<longrightarrow> run_malfind E p dump_dir s
                  = (Inr (result @ [NL, NL] @ ''Dumped '' @ str_nat (length dumped_files)
                          @ '' suspicious memory sections to '' @ normpath E d), s2))"
proof (intro conjI impI allI)
  fix e w1
  assume "\<not> isdir E (world s) (normpath E d)"
    and "makedirs E (world s) (normpath E d) = (Some e, w1)"
  with assms show "run_malfind E p dump_dir s
      = (Inr (''Error creating dump directory: '' @ str_exc e), s\<lparr>world := w1\<rparr>)"
    by (simp add: run_malfind_def Let_def)
next
  fix w1
  assume "\<not> isdir E (world s) (normpath E d)"
    and "makedirs E (world s) (normpath E d) = (None, w1)"
  with assms show "snd (run_malfind E p dump_dir s)
      = snd (run_volatility E
               [''-f'', normpath E p, ''windows.malfind.Malfind'', ''--dump-dir'', normpath E d]
               (s\<lparr>world := w1\<rparr>))"
    by (simp add: run_malfind_def Let_def case_prod_beta split: option.splits sum.splits)
next
  fix w1 result s2 dumped_files
  assume a: "(if isdir E (world s) (normpath E d) then w1 = world s
              else makedirs E (world s) (normpath E d) = (None, w1))
            \<and> normpath E d \<noteq> []
            \<and> run_volatility E
                 [''-f'', normpath E p, ''windows.malfind.Malfind'', ''--dump-dir'', normpath E d]
                 (s\<lparr>world := w1\<rparr>) = (result, s2)
            \<and> path_exists E (world s2) (normpath E d)
            \<and> listdir E (world s2) (normpath E d) = Inr dumped_files
            \<and> dumped_files \<noteq> []"
  then have t: "truthy (Some (normpath E d)) = Some (normpath E d)"
    by (simp add: truthy_def)
  show "run_malfind E p dump_dir s
          = (Inr (result @ [NL, NL] @ ''Dumped '' @ str_nat (length dumped_files)
                  @ '' suspicious memory sections to '' @ normpath E d), s2)"
  proof (cases "isdir E (world s) (normpath E d)")
    case True
    with a have "run_volatility E
        [''-f'', normpath E p, ''windows.malfind.Malfind'', ''--dump-dir'', normpath E d] s
        = (result, s2)"
      by auto
    with True a assms t show ?thesis
      by (simp add: run_malfind_def Let_def)
  next
    case False
    with a assms t show ?thesis
      by (simp add: run_malfind_def Let_def)
  qed
qed

theorem run_malfind_dump_dir_witness:
  "isfile (example_os (Exited 0 (ascii ''hit'') []) example_dump) (world example_state)
     (normpath (example_os (Exited 0 (ascii ''hit'') []) example_dump) ''/cases/mem.raw'')
   \<and> truthy (Some ''/out'') = Some ''/out''
   \<and> \<not> isdir (example_os (Exited 0 (ascii ''hit'') []) example_dump) (world example_state)
         (normpath (example_os (Exited 0 (ascii ''hit'') []) example_dump) ''/out'')
   \<and> fst (run_malfind (example_os (Exited 0 (ascii ''hit'') []) example_dump) ''/cases/mem.raw''
            (Some ''/out'') example_state)
       = Inr (''hit'' @ [NL, NL] @ ''Dumped 2 suspicious memory sections to /out'')
   \<and> truthy (Some ''/cases/mem.raw'') = Some ''/cases/mem.raw''
   \<and> \<not> isdir (example_os (Exited 0 (ascii ''hit'') []) example_dump) (world example_state)
         (normpath (example_os (Exited 0 (ascii ''hit'') []) example_dump) ''/cases/mem.raw'')
   \<and> run_malfind (example_os (Exited 0 (ascii ''hit'') []) example_dump) ''/cases/mem.raw''
        (Some ''/cases/mem.raw'') example_state
       = (Inr ''Error creating dump directory: File exists'', example_state)"
proof -
  let ?E = "example_os (Exited 0 (ascii ''hit'') []) example_dump"
  let ?w1 = "(world example_state)\<lparr>ex_dirs := (''/out'', []) # ex_dirs (world example_state)\<rparr>"
  let ?s2 = "\<lparr>world = example_dump ?w1,
             exec_calls = [[VOLATILITY_PYTHON ?E, VOLATILITY_SCRIPT ?E, ''-f'', ''/cases/mem.raw'',
                            ''windows.malfind.Malfind'', ''--dump-dir'', ''/out'']]\<rparr>"
  have n: "normpath ?E = (\<lambda>p. p)"
    by (simp add: example_os_def)
  have h: "isfile ?E (world example_state) (normpath ?E ''/cases/mem.raw'')"
    by (simp add: example_os_def example_state_def)
  have t1: "truthy (Some ''/out'') = Some ''/out''"
    and t2: "truthy (Some ''/cases/mem.raw'') = Some ''/cases/mem.raw''"
    by (simp_all add: truthy_def)
  have nd1: "\<not> isdir ?E (world example_state) (normpath ?E ''/out'')"
    and nd2: "\<not> isdir ?E (world example_state) (normpath ?E ''/cases/mem.raw'')"
    by (simp_all add: example_os_def example_state_def)
  have mk1: "makedirs ?E (world example_state) (normpath ?E ''/out'') = (None, ?w1)"
    by (simp add: example_os_def example_state_def)
  have mk2: "makedirs ?E (world example_state) (normpath ?E ''/cases/mem.raw'')
               = (Some (PyException ''File exists''), world example_state)"
    by (simp add: example_os_def example_state_def)
  have run: "run_volatility ?E
               [''-f'', normpath ?E ''/cases/mem.raw'', ''windows.malfind.Malfind'', ''--dump-dir'',
                normpath ?E ''/out'']
               (example_state\<lparr>world := ?w1\<rparr>) = (''hit'', ?s2)"
    by (simp add: run_volatility_def Let_def example_os_def example_state_def ascii_def
          char_of_def bit_0 VOLATILITY_PYTHON_def VOLATILITY_SCRIPT_def VOLATILITY_DIR_def)
  have ex: "path_exists ?E (world ?s2) (normpath ?E ''/out'')"
    by (simp add: example_os_def example_dump_def)
  have ls: "listdir ?E (world ?s2) (normpath ?E ''/out'') = Inr [''pid.4.dmp'', ''pid.8.dmp'']"
    by (simp add: example_os_def example_dump_def)
  have two: "str_nat (Suc (Suc 0)) = ''2''"
    by (simp add: str_nat.simps digit_char_def char_of_def bit_0 numeral_2_eq_2 [symmetric])
  have ok: "run_malfind ?E ''/cases/mem.raw'' (Some ''/out'') example_state
        = (Inr (''hit'' @ [NL, NL] @ ''Dumped '' @ str_nat (length [''pid.4.dmp'', ''pid.8.dmp''])
                @ '' suspicious memory sections to '' @ normpath ?E ''/out''), ?s2)"
    using run_malfind_dump_dir [OF h t1, THEN conjunct2, THEN conjunct2, rule_format,
        of ?w1 "''hit''" ?s2 "[''pid.4.dmp'', ''pid.8.dmp'']"]
      nd1 mk1 run ex ls
    by (simp add: n)
  have bad: "run_malfind ?E ''/cases/mem.raw'' (Some ''/cases/mem.raw'') example_state
        = (Inr (''Error creating dump directory: '' @ str_exc (PyException ''File exists'')),
           example_state\<lparr>world := world example_state\<rparr>)"
    using run_malfind_dump_dir [OF h t2, THEN conjunct1, rule_format, OF nd2 mk2] .
  show ?thesis
    using h t1 t2 nd1 nd2 ok bad by (simp add: two n)
qed

text \<open>
  An empty string does not pass the test \<^verbatim>\<open>if dump_dir:\<close> and counts as no directory: no
  flag is sent, nothing is created and nothing is listed.
\<close>

lemma run_malfind_empty_dump_dir:
  "run_malfind E p (Some []) s = run_malfind E p None s"
  by (simp add: run_malfind_def truthy_def Let_def case_prod_beta)

section \<open>The plugin catalogue read from the help text\<close>

lemma scan_lines_capturing:
  "scan_lines ls True acc
     = acc @ map py_strip
               (filter (\<lambda>l. py_strip l \<noteq> ''Plugins'') (takeWhile (\<lambda>l. py_strip l \<noteq> []) ls))"
  by (induction ls arbitrary: acc) auto

lemma scan_lines_waiting:
  "scan_lines ls False acc
     = scan_lines (drop 1 (dropWhile (\<lambda>l. py_strip l \<noteq> ''Plugins'') ls)) True acc"
  by (induction ls arbitrary: acc) auto

lemma scan_lines_eq:
  "scan_lines ls False []
     = map py_strip
         (filter (\<lambda>l. py_strip l \<noteq> ''Plugins'')
            (takeWhile (\<lambda>l. py_strip l \<noteq> [])
               (drop 1 (dropWhile (\<lambda>l. py_strip l \<noteq> ''Plugins'') ls))))"
  by (subst scan_lines_waiting) (simp add: scan_lines_capturing)

text \<open>
  C8, as the code has it. The heading test comes first in the loop and ends the turn, so a
  line whose trimmed content is \<^verbatim>\<open>Plugins\<close> is never an entry, before or after the first
  heading. The entries are those of the specification without the entries \<^verbatim>\<open>Plugins\<close>:
  the lines before the first heading are ignored, each line after it and before the first
  blank line that is not a heading again is one entry, trimmed, and nothing after that
  blank line is captured. \<open>get_volatility_plugins\<close> returns these entries as a JSON array.
\<close>

theorem plugin_names_extracted:
  "scan_lines ls False [] = filter (\<lambda>name. name \<noteq> ''Plugins'') (spec_plugins ls)
   \<and> get_volatility_plugins E s
       = (json_dumps_indent2
            (filter (\<lambda>name. name \<noteq> ''Plugins'')
               (spec_plugins (split_on NL (fst (run_volatility E [''-h''] s))))),
          snd (run_volatility E [''-h''] s))"
proof -
  have a: "scan_lines xs False [] = filter (\<lambda>name. name \<noteq> ''Plugins'') (spec_plugins xs)" for xs
    unfolding scan_lines_eq spec_plugins_def filter_map by (simp add: comp_def)
  show ?thesis
    by (simp add: a get_volatility_plugins_def Let_def case_prod_beta)
qed

text \<open>
  The claim as it is worded fails on a help text that repeats the heading: the second
  heading line stands after the first and before the blank line, and is not captured.
\<close>

theorem plugin_names_counterexample:
  "scan_lines (split_on NL (''Plugins'' @ [NL] @ ''Plugins'' @ [NL] @ '' windows.info'' @ [NL] @ [NL]
                            @ ''more''))
     False [] = [''windows.info'']
   \<and> spec_plugins (split_on NL (''Plugins'' @ [NL] @ ''Plugins'' @ [NL] @ '' windows.info'' @ [NL]
                               @ [NL] @ ''more''))
       = [''Plugins'', ''windows.info'']"
  by (simp add: spec_plugins_def py_strip_def py_isspace_def)

text \<open>
  The help text of the specification's test: a heading, three lines, a blank line and a
  trailing text. The three lines are the entries.
\<close>

lemma plugin_names_example:
  "scan_lines (split_on NL (''usage: vol'' @ [NL] @ [NL] @ ''Plugins'' @ [NL]
                            @ ''  windows.info'' @ [NL] @ ''  windows.pslist  '' @ [NL]
                            @ ''  windows.pstree'' @ [CHR 0x0D] @ [NL] @ ''  '' @ [NL]
                            @ ''trailing'' @ [NL]))
     False [] = [''windows.info'', ''windows.pslist'', ''windows.pstree'']
   \<and> json_dumps_indent2 [''windows.info'', ''windows.pslist'']
       = ''['' @ [NL] @ ''  '' @ [DQ] @ ''windows.info'' @ [DQ] @ '','' @ [NL]
         @ ''  '' @ [DQ] @ ''windows.pslist'' @ [DQ] @ [NL] @ '']''"
  by (simp add: py_strip_def py_isspace_def json_dumps_indent2_def json_string_def
        json_escape_char_def)

section \<open>The scan for memory dumps\<close>

lemma endswith_iff: "endswith l ext \<longleftrightarrow> (\<exists>stem. l = stem @ ext)"
proof
  assume "endswith l ext"
  then have "l = take (length l - length ext) l @ ext"
    by (metis append_take_drop_id endswith_def)
  then show "\<exists>stem. l = stem @ ext" ..
next
  assume "\<exists>stem. l = stem @ ext"
  then show "endswith l ext"
    by (auto simp add: endswith_def)
qed

lemma is_memory_file_iff:
  "is_memory_file file
     \<longleftrightarrow> (\<exists>ext \<in> set memory_extensions. \<exists>stem tail. file = stem @ tail \<and> py_lower tail = ext)"
proof -
  have "endswith (py_lower file) ext \<longleftrightarrow> (\<exists>stem tail. file = stem @ tail \<and> py_lower tail = ext)"
    for ext
    unfolding endswith_iff py_lower_def
    by (auto simp add: map_eq_append_conv) 
  then show ?thesis
    by (simp add: is_memory_file_def list_ex_iff)
qed

lemma scan_files_readable:
  assumes "\<forall>file \<in> set files. is_memory_file file
             \<longrightarrow> getsize E w (path_join E root file) = Inr (sz (path_join E root file))"
  shows "scan_files E w root files acc
           = Inr (acc @ map (\<lambda>file. report_line (path_join E root file) (sz (path_join E root file)))
                          (filter is_memory_file files))"
  using assms
  by (induction files arbitrary: acc) (simp_all add: Let_def report_line_def)

lemma scan_walk_readable:
  assumes "\<forall>(root, file) \<in> set (walked_files tree). is_memory_file file
             \<longrightarrow> getsize E w (path_join E root file) = Inr (sz (path_join E root file))"
  shows "scan_walk E w tree acc
           = Inr (acc @ map (\<lambda>(root, file). report_line (path_join E root file)
                                                (sz (path_join E root file)))
                          (filter (\<lambda>(root, file). is_memory_file file) (walked_files tree)))"
  using assms
proof (induction tree arbitrary: acc)
  case Nil
  then show ?case
    by (simp add: walked_files_def)
next
  case (Cons t tree)
  obtain root dirs files where t: "t = (root, dirs, files)"
    by (cases t)
  have here: "\<forall>file \<in> set files. is_memory_file file
                \<longrightarrow> getsize E w (path_join E root file) = Inr (sz (path_join E root file))"
    using Cons.prems by (auto simp add: walked_files_def t)
  have rest: "\<forall>(root, file) \<in> set (walked_files tree). is_memory_file file
                \<longrightarrow> getsize E w (path_join E root file) = Inr (sz (path_join E root file))"
    using Cons.prems by (auto simp add: walked_files_def)
  have w: "walked_files (t # tree) = map (\<lambda>file. (root, file)) files @ walked_files tree"
    by (simp add: walked_files_def t)
  show ?case
    unfolding t
    by (simp add: w [unfolded t] scan_files_readable [OF here] Cons.IH [OF rest]
          filter_map comp_def)
qed

lemma round_half_even_near:
  assumes "0 < d"
  shows "2 * (round_half_even n d * d - n) \<le> d \<and> 2 * (n - round_half_even n d * d) \<le> d"
proof -
  define q r where "q = n div d" and "r = n mod d"
  have n: "n = q * d + r" and r: "r < d"
    using assms by (simp_all add: q_def r_def)
  show ?thesis
  proof (cases "d < 2 * r \<or> (2 * r = d \<and> odd q)")
    case True
    then have "round_half_even n d = q + 1"
      by (simp add: round_half_even_def q_def r_def Let_def)
    with True n r show ?thesis
      by (auto simp add: algebra_simps)
  next
    case False
    then have "round_half_even n d = q"
      by (simp add: round_half_even_def q_def r_def Let_def)
    with False n r show ?thesis
      by (auto simp add: algebra_simps)
  qed
qed

lemma size_mb_exact: "unat b < 2 ^ 53 \<Longrightarrow> size_mb b = unat b"
  by (simp add: size_mb_def round53_def excess_bits.simps round_half_even_def)

text \<open>
  C9, as the code has it. \<open>list_memory_dumps\<close> on a directory that exists, when the size
  of every matching file can be read: \<^verbatim>\<open>os.path.getsize\<close> stands in no \<^verbatim>\<open>try\<close> block, and
  an exception it raises ends the operation. The report has one line for each file of the walk whose name matches,
  in the order of the walk, and for no other file. A name matches when it ends with one of
  the eight extensions, the letters of that ending taken in lower case. The line gives the
  joined path and the size in megabytes with two digits after the point: for a size below
  \<open>2 ^ 53\<close> bytes the number printed is within half a hundredth of the bytes divided by
  1048576. With no matching file the result is the text \<^verbatim>\<open>No memory dump files found in \<close>
  and the directory.
\<close>

theorem list_memory_dumps_report:
  assumes "truthy search_dir = Some d"
    and "isdir E w (normpath E d)"
    and "\<forall>(root, file) \<in> set (walked_files (walk E w (normpath E d))). is_memory_file file
           \<longrightarrow> getsize E w (path_join E root file) = Inr (sz (path_join E root file))"
  shows "list_memory_dumps E search_dir w
           = (let found = filter (\<lambda>(root, file). is_memory_file file)
                            (walked_files (walk E w (normpath E d)));
                  report = map (\<lambda>(root, file). report_line (path_join E root file)
                                                   (sz (path_join E root file))) found
              in if found = [] then Inr (''No memory dump files found in '' @ normpath E d)
                 else Inr (''Found memory dump files:'' @ [NL] @ py_join [NL] report))
       \<and> (is_memory_file file
            \<longleftrightarrow> (\<exists>ext \<in> set [''.raw'', ''.vmem'', ''.dmp'', ''.mem'', ''.bin'', ''.img'', ''.001'',
                              ''.dump''].
                   \<exists>stem tail. file = stem @ tail \<and> py_lower tail = ext))
       \<and> report_line full_path b
           = full_path @ '' (Size: '' @ str_nat (hundredths (size_mb b) div 100) @ ''.''
             @ [digit_char (hundredths (size_mb b) mod 100 div 10),
                digit_char (hundredths (size_mb b) mod 10)] @ '' MB)''
       \<and> (unat b < 2 ^ 53 \<longrightarrow>
            size_mb b = unat b
            \<and> 2 * (hundredths (size_mb b) * 1048576 - 100 * unat b) \<le> 1048576
            \<and> 2 * (100 * unat b - hundredths (size_mb b) * 1048576) \<le> 1048576)"
proof (intro conjI impI)
  let ?found = "filter (\<lambda>(root, file). is_memory_file file) (walked_files (walk E w (normpath E d)))"
  let ?report = "map (\<lambda>(root, file). report_line (path_join E root file)
                                         (sz (path_join E root file))) ?found"
  have sw: "scan_walk E w (walk E w (normpath E d)) [] = Inr ?report"
    using scan_walk_readable [OF assms(3), of "[]"] by simp
  show "list_memory_dumps E search_dir w
           = (let found = ?found;
                  report = map (\<lambda>(root, file). report_line (path_join E root file)
                                                   (sz (path_join E root file))) found
              in if found = [] then Inr (''No memory dump files found in '' @ normpath E d)
                 else Inr (''Found memory dump files:'' @ [NL] @ py_join [NL] report))"
    using assms(1,2) by (simp add: list_memory_dumps_def Let_def sw)
  show "is_memory_file file
          \<longleftrightarrow> (\<exists>ext \<in> set [''.raw'', ''.vmem'', ''.dmp'', ''.mem'', ''.bin'', ''.img'', ''.001'',
                            ''.dump''].
                 \<exists>stem tail. file = stem @ tail \<and> py_lower tail = ext)"
    using is_memory_file_iff [of "file"] unfolding memory_extensions_def .
  show "report_line full_path b
          = full_path @ '' (Size: '' @ str_nat (hundredths (size_mb b) div 100) @ ''.''
            @ [digit_char (hundredths (size_mb b) mod 100 div 10),
               digit_char (hundredths (size_mb b) mod 10)] @ '' MB)''"
    by (simp add: report_line_def format_2f_def Let_def)
next
  assume b: "unat b < 2 ^ 53"
  then show "size_mb b = unat b"
    by (rule size_mb_exact)
  have "2 * (round_half_even (unat b * 100) 1048576 * 1048576 - unat b * 100) \<le> 1048576
      \<and> 2 * (unat b * 100 - round_half_even (unat b * 100) 1048576 * 1048576) \<le> 1048576"
    by (rule round_half_even_near) simp
  then show "2 * (hundredths (size_mb b) * 1048576 - 100 * unat b) \<le> 1048576"
    and "2 * (100 * unat b - hundredths (size_mb b) * 1048576) \<le> 1048576"
    by (simp_all add: hundredths_def size_mb_exact [OF b] mult.commute)
qed

theorem list_memory_dumps_report_witness:
  "truthy (Some ''/dumps'') = Some ''/dumps''
   \<and> isdir (example_os (Exited 0 [] []) id) example_dumps
       (normpath (example_os (Exited 0 [] []) id) ''/dumps'')
   \<and> list_memory_dumps (example_os (Exited 0 [] []) id) (Some ''/dumps'') example_dumps
       = Inr (''Found memory dump files:'' @ [NL] @ ''/dumps/a.dmp (Size: 1.00 MB)'' @ [NL]
              @ ''/dumps/c.RAW (Size: 0.12 MB)'')
   \<and> is_memory_file ''c.RAW''
   \<and> \<not> is_memory_file ''b.txt''
   \<and> unat (131072 :: 64 word) < 2 ^ 53
   \<and> size_mb 131072 = 131072"
proof -
  let ?E = "example_os (Exited 0 [] []) id"
  have t: "truthy (Some ''/dumps'') = Some ''/dumps''"
    by (simp add: truthy_def)
  have n: "normpath ?E = (\<lambda>p. p)" and j: "path_join ?E = (\<lambda>a b. a @ ''/'' @ b)"
    by (simp_all add: example_os_def)
  have d: "isdir ?E example_dumps (normpath ?E ''/dumps'')"
    by (simp add: example_os_def example_dumps_def)
  have tree: "walk ?E example_dumps (normpath ?E ''/dumps'')
                = [(''/dumps'', [], [''a.dmp'', ''b.txt'', ''c.RAW''])]"
    by (simp add: example_os_def example_dumps_def)
  have m: "is_memory_file ''a.dmp''" "\<not> is_memory_file ''b.txt''" "is_memory_file ''c.RAW''"
    by (simp_all add: is_memory_file_def memory_extensions_def endswith_def py_lower_def
          lower_char_def char_of_def bit_0)
  have sizes: "\<forall>(root, file) \<in> set (walked_files (walk ?E example_dumps (normpath ?E ''/dumps''))).
                 is_memory_file file
                 \<longrightarrow> getsize ?E example_dumps (path_join ?E root file)
                       = Inr (example_size (path_join ?E root file))"
    unfolding tree by (simp add: walked_files_def m example_os_def example_dumps_def example_size_def)
  have small: "unat (131072 :: 64 word) < 2 ^ 53"
    by simp
  have l1: "report_line ''/dumps/a.dmp'' 1048576 = ''/dumps/a.dmp (Size: 1.00 MB)''"
    and l2: "report_line ''/dumps/c.RAW'' 131072 = ''/dumps/c.RAW (Size: 0.12 MB)''"
    by (simp_all add: report_line_def format_2f_def hundredths_def size_mb_def round53_def
          excess_bits.simps round_half_even_def Let_def str_nat.simps digit_char_def
          char_of_def bit_0)
  note r = list_memory_dumps_report [OF t d sizes, of "''c.RAW''" "''/dumps/c.RAW''" 131072]
  have "list_memory_dumps ?E (Some ''/dumps'') example_dumps
       = Inr (''Found memory dump files:'' @ [NL] @ ''/dumps/a.dmp (Size: 1.00 MB)'' @ [NL]
              @ ''/dumps/c.RAW (Size: 0.12 MB)'')"
    using r [THEN conjunct1] unfolding tree
    by (simp add: walked_files_def m j example_size_def l1 l2)
  moreover have "size_mb 131072 = 131072"
    using r small by simp
  ultimately show ?thesis
    using t d m small by simp
qed

text \<open>
  The claim as it is worded, for every directory, fails on a directory with a matching
  file whose size cannot be read: the exception of \<^verbatim>\<open>os.path.getsize\<close> leaves the
  operation, and there is no report, not even for the readable dump beside it.
\<close>

theorem list_memory_dumps_report_counterexample:
  "isdir (example_os (Exited 0 [] []) id) example_dangling
     (normpath (example_os (Exited 0 [] []) id) ''/dumps'')
   \<and> walk (example_os (Exited 0 [] []) id) example_dangling
         (normpath (example_os (Exited 0 [] []) id) ''/dumps'')
       = [(''/dumps'', [], [''a.dmp'', ''gone.dmp''])]
   \<and> is_memory_file ''a.dmp''
   \<and> is_memory_file ''gone.dmp''
   \<and> getsize (example_os (Exited 0 [] []) id) example_dangling ''/dumps/a.dmp'' = Inr 1048576
   \<and> list_memory_dumps (example_os (Exited 0 [] []) id) (Some ''/dumps'') example_dangling
       = Inl (PyException ''No such file'')"
proof -
  let ?E = "example_os (Exited 0 [] []) id"
  have m: "is_memory_file ''a.dmp''" "is_memory_file ''gone.dmp''"
    by (simp_all add: is_memory_file_def memory_extensions_def endswith_def py_lower_def
          lower_char_def char_of_def bit_0)
  have d: "isdir ?E example_dangling (normpath ?E ''/dumps'')"
    by (simp add: example_os_def example_dangling_def)
  have tree: "walk ?E example_dangling (normpath ?E ''/dumps'')
                = [(''/dumps'', [], [''a.dmp'', ''gone.dmp''])]"
    by (simp add: example_os_def example_dangling_def)
  have a: "getsize ?E example_dangling ''/dumps/a.dmp'' = Inr 1048576"
    and g: "getsize ?E example_dangling ''/dumps/gone.dmp'' = Inl (PyException ''No such file'')"
    by (simp_all add: example_os_def example_dangling_def)
  have j: "path_join ?E ''/dumps'' ''a.dmp'' = ''/dumps/a.dmp''"
    "path_join ?E ''/dumps'' ''gone.dmp'' = ''/dumps/gone.dmp''"
    by (simp_all add: example_os_def)
  have "list_memory_dumps ?E (Some ''/dumps'') example_dangling = Inl (PyException ''No such file'')"
    using d by (simp add: list_memory_dumps_def Let_def tree truthy_def m j a g)
  with m d tree a show ?thesis
    by simp
qed

text \<open>
  In general: when the size of some matching file of the walk cannot be read, the
  operation ends with an exception.
\<close>

lemma scan_files_unreadable:
  assumes "file \<in> set files" and "is_memory_file file"
    and "getsize E w (path_join E root file) = Inl e"
  shows "\<exists>e'. scan_files E w root files acc = Inl e'"
  using assms
proof (induction files arbitrary: acc)
  case Nil
  then show ?case by simp
next
  case (Cons f files)
  show ?case
  proof (cases "is_memory_file f")
    case False
    with Cons show ?thesis by auto
  next
    case True
    show ?thesis
    proof (cases "getsize E w (path_join E root f)")
      case (Inl e1)
      with True show ?thesis by simp
    next
      case (Inr n)
      have "file \<in> set files"
        using Cons.prems Inr by auto
      from Cons.IH [OF this Cons.prems(2,3)] True Inr show ?thesis
        by (simp add: Let_def)
    qed
  qed
qed

lemma scan_walk_unreadable:
  assumes "(root, file) \<in> set (walked_files tree)" and "is_memory_file file"
    and "getsize E w (path_join E root file) = Inl e"
  shows "\<exists>e'. scan_walk E w tree acc = Inl e'"
  using assms
proof (induction tree arbitrary: acc)
  case Nil
  then show ?case by (simp add: walked_files_def)
next
  case (Cons t tree)
  obtain r dirs files where t: "t = (r, dirs, files)"
    by (cases t)
  show ?case
  proof (cases "scan_files E w r files acc")
    case (Inl e1)
    then show ?thesis by (simp add: t)
  next
    case (Inr acc')
    have "\<not> (r = root \<and> file \<in> set files)"
      using scan_files_unreadable [of "file" files E w r e acc] Cons.prems(2,3) Inr by auto
    then have "(root, file) \<in> set (walked_files tree)"
      using Cons.prems(1) by (auto simp add: walked_files_def t)
    from Cons.IH [OF this Cons.prems(2,3)] Inr show ?thesis
      by (simp add: t)
  qed
qed

lemma list_memory_dumps_unreadable:
  assumes "truthy search_dir = Some d"
    and "isdir E w (normpath E d)"
    and "(root, file) \<in> set (walked_files (walk E w (normpath E d)))"
    and "is_memory_file file"
    and "getsize E w (path_join E root file) = Inl e"
  shows "\<exists>e'. list_memory_dumps E search_dir w = Inl e'"
proof -
  obtain e' where "scan_walk E w (walk E w (normpath E d)) [] = Inl e'"
    using scan_walk_unreadable [OF assms(3,4,5)] by blast
  with assms(1,2) show ?thesis
    by (simp add: list_memory_dumps_def Let_def)
qed

section \<open>The default search directory\<close>

text \<open>
  C10. When the current working directory can be read, \<open>list_memory_dumps\<close> without a
  directory, or with the empty string, does what it does on the current working directory.
  The result is \<^verbatim>\<open>Error: Directory not found at \<close> followed by a path exactly when the
  directory it settled on, normalised, is not an existing directory, and the path is then
  that normalised directory.
\<close>

theorem list_memory_dumps_default_dir:
  assumes "getcwd E w = Inr cwd"
  shows "list_memory_dumps E None w = list_memory_dumps E (Some cwd) w
       \<and> list_memory_dumps E (Some []) w = list_memory_dumps E (Some cwd) w
       \<and> ((\<exists>p. list_memory_dumps E search_dir w = Inr (''Error: Directory not found at '' @ p))
            \<longleftrightarrow> \<not> isdir E w (normpath E (case truthy search_dir of None \<Rightarrow> cwd | Some d \<Rightarrow> d)))
       \<and> (list_memory_dumps E search_dir w
             = Inr (''Error: Directory not found at ''
                    @ normpath E (case truthy search_dir of None \<Rightarrow> cwd | Some d \<Rightarrow> d))
            \<longleftrightarrow> \<not> isdir E w (normpath E (case truthy search_dir of None \<Rightarrow> cwd | Some d \<Rightarrow> d)))"
proof -
  let ?dir = "normpath E (case truthy search_dir of None \<Rightarrow> cwd | Some d \<Rightarrow> d)"
  have resolved: "(case truthy search_dir of None \<Rightarrow> getcwd E w | Some d \<Rightarrow> Inr d)
                    = Inr (case truthy search_dir of None \<Rightarrow> cwd | Some d \<Rightarrow> d)"
    using assms by (simp split: option.splits)
  have missing: "list_memory_dumps E search_dir w = Inr (''Error: Directory not found at '' @ ?dir)"
    if "\<not> isdir E w ?dir"
    using that unfolding list_memory_dumps_def resolved by (simp add: Let_def)
  have present: "list_memory_dumps E search_dir w \<noteq> Inr (''Error: Directory not found at '' @ p)"
    if "isdir E w ?dir" for p
    using that unfolding list_memory_dumps_def resolved
    by (simp add: Let_def split: sum.splits)
  have a: "list_memory_dumps E None w = list_memory_dumps E (Some cwd) w"
    using assms by (simp add: list_memory_dumps_def truthy_def)
  have b: "list_memory_dumps E (Some []) w = list_memory_dumps E (Some cwd) w"
    using assms by (simp add: list_memory_dumps_def truthy_def)
  have c: "(\<exists>p. list_memory_dumps E search_dir w = Inr (''Error: Directory not found at '' @ p))
             \<longleftrightarrow> \<not> isdir E w ?dir"
    using missing present by blast
  have d: "list_memory_dumps E search_dir w = Inr (''Error: Directory not found at '' @ ?dir)
             \<longleftrightarrow> \<not> isdir E w ?dir"
    using missing present by blast
  from a b c d show ?thesis
    by (intro conjI)
qed

theorem list_memory_dumps_default_dir_witness:
  "getcwd (example_os (Exited 0 [] []) id) example_dumps = Inr ''/dumps''
   \<and> list_memory_dumps (example_os (Exited 0 [] []) id) None example_dumps
       = list_memory_dumps (example_os (Exited 0 [] []) id) (Some ''/dumps'') example_dumps
   \<and> list_memory_dumps (example_os (Exited 0 [] []) id) (Some []) example_dumps
       = list_memory_dumps (example_os (Exited 0 [] []) id) (Some ''/dumps'') example_dumps
   \<and> list_memory_dumps (example_os (Exited 0 [] []) id) None example_dumps
       \<noteq> Inr ''Error: Directory not found at /dumps''
   \<and> list_memory_dumps (example_os (Exited 0 [] []) id) (Some ''/nowhere'') example_dumps
       = Inr ''Error: Directory not found at /nowhere''"
proof -
  let ?E = "example_os (Exited 0 [] []) id"
  have h: "getcwd ?E example_dumps = Inr ''/dumps''"
    by (simp add: example_os_def)
  have n: "normpath ?E = (\<lambda>p. p)"
    by (simp add: example_os_def)
  have d: "isdir ?E example_dumps ''/dumps''" "\<not> isdir ?E example_dumps ''/nowhere''"
    by (simp_all add: example_os_def example_dumps_def)
  have t: "truthy None = None" "truthy (Some ''/nowhere'') = Some ''/nowhere''"
    by (simp_all add: truthy_def)
  note r = list_memory_dumps_default_dir [OF h]
  have "list_memory_dumps ?E None example_dumps \<noteq> Inr ''Error: Directory not found at /dumps''"
    using r [of None, THEN conjunct2, THEN conjunct2, THEN conjunct2] d
    by (simp add: t n)
  moreover have "list_memory_dumps ?E (Some ''/nowhere'') example_dumps
                   = Inr ''Error: Directory not found at /nowhere''"
    using r [of "Some ''/nowhere''", THEN conjunct2, THEN conjunct2, THEN conjunct2] d
    by (simp add: t n)
  ultimately show ?thesis
    using h r [of None] by simp
qed

end
